theory Spec2Isabelle
  imports Main
begin

section \<open>Values, errors and wrapper variants\<close>

text \<open>
  The module \<^verbatim>\<open>django_openstack/api.py\<close> wraps dynamically shaped results of
  remote API calls. Its values are Python objects, so the model has one universal type
  of values. \<open>VObj\<close> is a resource handle of an external client library: an object
  carrying named fields. \<open>VWrapper cls payload\<close> is an instance of one of the
  wrapper classes of the module, built by \<^verbatim>\<open>cls(payload)\<close>; the constructor only
  stores the payload (as \<^verbatim>\<open>self.apiresource\<close> or \<^verbatim>\<open>self.apidict\<close>).
  \<open>VBound obj name\<close> stands for a method or built-in attribute \<open>name\<close> found on
  \<open>obj\<close> by Python's ordinary attribute lookup; its inner structure is not needed.
\<close>

datatype variant =
    Console | Flavor | Image | ImageProperties | KeyPair | Server
  | Services | Tenant | Token | Usage | User

datatype pyval =
    VNone
  | VBool bool
  | VInt int
  | VStr string
  | VList "pyval list"
  | VDict "(string \<times> pyval) list"
  | VObj "(string \<times> pyval) list"
  | VWrapper variant pyval
  | VBound pyval string

datatype error =
    AttributeError pyval
  | KeyError pyval
  | IndexError
  | TypeError
  | RemoteError string

text \<open>The class attribute \<^verbatim>\<open>attrs\<close> of each concrete wrapper class.\<close>

fun attrs :: "variant \<Rightarrow> string list" where
  "attrs Console = [''id'', ''output'', ''type'']"
| "attrs Flavor = [''disk'', ''id'', ''links'', ''name'', ''ram'', ''vcpus'']"
| "attrs Image = [''checksum'', ''created_at'', ''deleted'', ''deleted_at'', ''disk_format'',
     ''id'', ''is_public'', ''location'', ''name'', ''properties'',
     ''size'', ''status'', ''updated_at'']"
| "attrs ImageProperties = [''architecture'', ''image_location'', ''image_state'', ''kernel_id'',
     ''project_id'', ''ramdisk_id'']"
| "attrs KeyPair = [''fingerprint'', ''key_name'', ''private_key'']"
| "attrs Server = [''addresses'', ''attrs'', ''hostId'', ''id'', ''imageRef'', ''links'',
     ''metadata'', ''name'', ''private_ip'', ''public_ip'', ''status'', ''uuid'']"
| "attrs Services = [''disabled'', ''host'', ''id'', ''last_update'', ''stats'', ''type'', ''up'',
     ''zone'']"
| "attrs Tenant = [''id'', ''description'', ''enabled'']"
| "attrs Token = [''id'', ''serviceCatalog'', ''tenant_id'', ''username'']"
| "attrs Usage = [''begin'', ''instances'', ''stop'', ''tenant_id'',
     ''total_active_disk_size'', ''total_active_instances'',
     ''total_active_ram_size'', ''total_active_vcpus'', ''total_cpu_usage'',
     ''total_disk_usage'', ''total_hours'', ''total_ram_usage'']"
| "attrs User = [''email'', ''enabled'', ''id'', ''tenantId'']"

text \<open>\<open>Image\<close> and \<open>ImageProperties\<close> derive from \<^verbatim>\<open>APIDictWrapper\<close>, every other
  variant from \<^verbatim>\<open>APIResourceWrapper\<close>.\<close>

fun is_dict_wrapper :: "variant \<Rightarrow> bool" where
  "is_dict_wrapper Image = True"
| "is_dict_wrapper ImageProperties = True"
| "is_dict_wrapper _ = False"

section \<open>Python primitives the module relies on\<close>

text \<open>Indexing a sequence with an integer: negative indices count from the end, an index
  out of range raises \<^verbatim>\<open>IndexError\<close> (here \<open>None\<close>).\<close>

definition seq_index :: "'a list \<Rightarrow> int \<Rightarrow> 'a option" where
  "seq_index xs i =
     (let n = int (length xs); j = (if i < 0 then n + i else i)
      in if 0 \<le> j \<and> j < n then Some (xs ! nat j) else None)"

text \<open>The subscript on the built-in containers. Dictionaries of the model have string keys;
  a list or a dictionary used as a key is unhashable (\<^verbatim>\<open>TypeError\<close>), any other key
  is merely absent (\<^verbatim>\<open>KeyError\<close>). A \<^verbatim>\<open>bool\<close> is an \<^verbatim>\<open>int\<close> in Python.\<close>

definition dict_getitem :: "(string \<times> pyval) list \<Rightarrow> pyval \<Rightarrow> error + pyval" where
  "dict_getitem kvs key =
     (case key of
        VStr k \<Rightarrow> (case map_of kvs k of Some v \<Rightarrow> Inr v | None \<Rightarrow> Inl (KeyError key))
      | VList _ \<Rightarrow> Inl TypeError
      | VDict _ \<Rightarrow> Inl TypeError
      | _ \<Rightarrow> Inl (KeyError key))"

definition index_of :: "pyval \<Rightarrow> int option" where
  "index_of key =
     (case key of VInt i \<Rightarrow> Some i | VBool b \<Rightarrow> Some (if b then 1 else 0) | _ \<Rightarrow> None)"

definition list_getitem :: "pyval list \<Rightarrow> pyval \<Rightarrow> error + pyval" where
  "list_getitem xs key =
     (case index_of key of
        None \<Rightarrow> Inl TypeError
      | Some i \<Rightarrow> (case seq_index xs i of Some v \<Rightarrow> Inr v | None \<Rightarrow> Inl IndexError))"

definition str_getitem :: "string \<Rightarrow> pyval \<Rightarrow> error + pyval" where
  "str_getitem s key =
     (case index_of key of
        None \<Rightarrow> Inl TypeError
      | Some i \<Rightarrow> (case seq_index s i of Some c \<Rightarrow> Inr (VStr [c]) | None \<Rightarrow> Inl IndexError))"

section \<open>The wrapper classes\<close>

text \<open>
  The three \<^verbatim>\<open>__getattr__\<close> methods of the module. Each takes, in place of
  \<^verbatim>\<open>self\<close>, the class of the instance (for its \<^verbatim>\<open>attrs\<close>) and the one
  operation of the payload it uses: \<open>apiresource_getattr\<close> is the bound method
  \<^verbatim>\<open>self.apiresource.__getattr__\<close>, \<open>apidict_getitem\<close> is the subscript
  \<^verbatim>\<open>self.apidict[...]\<close>. The log line written before the error is raised has no
  other effect and is left out.
\<close>

definition APIResourceWrapper_getattr ::
  "variant \<Rightarrow> (pyval \<Rightarrow> error + pyval) \<Rightarrow> pyval \<Rightarrow> error + pyval" where
  "APIResourceWrapper_getattr cls apiresource_getattr attr =
     (if attr \<in> set (map VStr (attrs cls)) then apiresource_getattr attr
      else Inl (AttributeError attr))"

definition APIDictWrapper_getattr ::
  "variant \<Rightarrow> (pyval \<Rightarrow> error + pyval) \<Rightarrow> pyval \<Rightarrow> error + pyval" where
  "APIDictWrapper_getattr cls apidict_getitem attr =
     (if attr \<in> set (map VStr (attrs cls)) then apidict_getitem attr
      else Inl (AttributeError attr))"

definition Image_getattr :: "(pyval \<Rightarrow> error + pyval) \<Rightarrow> pyval \<Rightarrow> error + pyval" where
  "Image_getattr apidict_getitem attrname =
     (if attrname = VStr ''properties''
      then (case APIDictWrapper_getattr Image apidict_getitem attrname of
              Inl e \<Rightarrow> Inl e
            | Inr v \<Rightarrow> Inr (VWrapper ImageProperties v))
      else APIDictWrapper_getattr Image apidict_getitem attrname)"

text \<open>Method resolution: \<^verbatim>\<open>__getattr__\<close> of the most derived class of the instance.\<close>

definition wrapper_getattr ::
  "variant \<Rightarrow> (pyval \<Rightarrow> error + pyval) \<Rightarrow> (pyval \<Rightarrow> error + pyval) \<Rightarrow> pyval \<Rightarrow> error + pyval" where
  "wrapper_getattr cls payload_getattr payload_getitem attr =
     (if cls = Image then Image_getattr payload_getitem attr
      else if is_dict_wrapper cls then APIDictWrapper_getattr cls payload_getitem attr
      else APIResourceWrapper_getattr cls payload_getattr attr)"

text \<open>
  \<open>obj_ops obj\<close> is the pair of the two operations of an object that the module calls
  explicitly: \<^verbatim>\<open>obj.__getattr__(attr)\<close> and \<^verbatim>\<open>obj[key]\<close>.
  \<^item> On a wrapper the first is the \<^verbatim>\<open>__getattr__\<close> above; the second is
    \<^verbatim>\<open>APIDictWrapper.__getitem__\<close>, which calls \<^verbatim>\<open>self.__getattr__(item)\<close>, and
    a resource wrapper has no \<^verbatim>\<open>__getitem__\<close> (\<^verbatim>\<open>TypeError\<close>).
  \<^item> An external resource handle answers \<^verbatim>\<open>__getattr__\<close> from its field table and
    raises \<^verbatim>\<open>AttributeError\<close> for a field it does not have; it has no subscript.
  \<^item> The built-in types define no \<^verbatim>\<open>__getattr__\<close>, so that looking the method up
    already raises \<^verbatim>\<open>AttributeError('__getattr__')\<close>.
\<close>

definition obj_getattr :: "(string \<times> pyval) list \<Rightarrow> pyval \<Rightarrow> error + pyval" where
  "obj_getattr fields attr =
     (case attr of
        VStr k \<Rightarrow> (case map_of fields k of Some v \<Rightarrow> Inr v | None \<Rightarrow> Inl (AttributeError attr))
      | _ \<Rightarrow> Inl (AttributeError attr))"

definition no_getattr :: "pyval \<Rightarrow> error + pyval" where
  "no_getattr attr = Inl (AttributeError (VStr ''__getattr__''))"

definition no_getitem :: "pyval \<Rightarrow> error + pyval" where
  "no_getitem key = Inl TypeError"

primrec obj_ops :: "pyval \<Rightarrow> (pyval \<Rightarrow> error + pyval) \<times> (pyval \<Rightarrow> error + pyval)" where
  "obj_ops VNone = (no_getattr, no_getitem)"
| "obj_ops (VBool b) = (no_getattr, no_getitem)"
| "obj_ops (VInt i) = (no_getattr, no_getitem)"
| "obj_ops (VStr s) = (no_getattr, str_getitem s)"
| "obj_ops (VList xs) = (no_getattr, list_getitem xs)"
| "obj_ops (VDict kvs) = (no_getattr, dict_getitem kvs)"
| "obj_ops (VObj fields) = (obj_getattr fields, no_getitem)"
| "obj_ops (VWrapper cls payload) =
     (wrapper_getattr cls (fst (obj_ops payload)) (snd (obj_ops payload)),
      if is_dict_wrapper cls
      then wrapper_getattr cls (fst (obj_ops payload)) (snd (obj_ops payload))
      else no_getitem)"
| "obj_ops (VBound obj name) = (no_getattr, no_getitem)"

definition method_getattr :: "pyval \<Rightarrow> pyval \<Rightarrow> error + pyval" where
  "method_getattr obj attr = fst (obj_ops obj) attr"

definition py_getitem :: "pyval \<Rightarrow> pyval \<Rightarrow> error + pyval" where
  "py_getitem obj key = snd (obj_ops obj) key"

text \<open>\<^verbatim>\<open>APIDictWrapper.__getitem__\<close> and \<^verbatim>\<open>APIDictWrapper.get\<close>, on the instance
  \<^verbatim>\<open>cls(apidict)\<close>. Only \<^verbatim>\<open>AttributeError\<close> is caught.\<close>

definition APIDictWrapper_getitem :: "variant \<Rightarrow> pyval \<Rightarrow> pyval \<Rightarrow> error + pyval" where
  "APIDictWrapper_getitem cls apidict item = method_getattr (VWrapper cls apidict) item"

definition APIDictWrapper_get :: "variant \<Rightarrow> pyval \<Rightarrow> pyval \<Rightarrow> pyval \<Rightarrow> error + pyval" where
  "APIDictWrapper_get cls apidict item dflt =
     (case method_getattr (VWrapper cls apidict) item of
        Inl (AttributeError _) \<Rightarrow> Inr dflt
      | r \<Rightarrow> r)"

section \<open>Ordinary attribute access\<close>

text \<open>
  Python calls \<^verbatim>\<open>__getattr__\<close> only after the ordinary lookup of \<^verbatim>\<open>obj.name\<close>
  has failed. On an instance of a wrapper class the ordinary lookup finds the instance
  attribute set by \<^verbatim>\<open>__init__\<close>, the attributes the class statements of the module
  define, and the attributes every new-style class has from \<^verbatim>\<open>object\<close>.
\<close>

definition instance_attr :: "variant \<Rightarrow> string" where
  "instance_attr cls = (if is_dict_wrapper cls then ''apidict'' else ''apiresource'')"

definition object_attr_names :: "string list" where
  "object_attr_names =
     [''__class__'', ''__delattr__'', ''__dict__'', ''__doc__'', ''__format__'',
      ''__getattribute__'', ''__hash__'', ''__init__'', ''__module__'', ''__new__'',
      ''__reduce__'', ''__reduce_ex__'', ''__repr__'', ''__setattr__'', ''__sizeof__'',
      ''__str__'', ''__subclasshook__'', ''__weakref__'']"

definition class_attr_names :: "variant \<Rightarrow> string list" where
  "class_attr_names cls =
     (if is_dict_wrapper cls
      then [''attrs'', ''__init__'', ''__getattr__'', ''__getitem__'', ''get'']
      else [''attrs'', ''__init__'', ''__getattr__'']) @ object_attr_names"

definition normal_lookup :: "variant \<Rightarrow> pyval \<Rightarrow> string \<Rightarrow> pyval option" where
  "normal_lookup cls payload name =
     (if name = instance_attr cls then Some payload
      else if name = ''attrs'' then Some (VList (map VStr (attrs cls)))
      else if name = ''__dict__'' then Some (VDict [(instance_attr cls, payload)])
      else if name \<in> set (class_attr_names cls) then Some (VBound (VWrapper cls payload) name)
      else None)"

text \<open>
  \<open>py_getattr obj name\<close> is the expression \<^verbatim>\<open>obj.name\<close>. The module reads attributes
  of wrappers and of resource handles only; for a value of a built-in type the model
  answers \<^verbatim>\<open>AttributeError\<close>, which is what Python does for every name the module
  reads (\<^verbatim>\<open>id\<close>, \<^verbatim>\<open>serviceCatalog\<close>), the methods of the built-in types not being
  modelled.
\<close>

definition py_getattr :: "pyval \<Rightarrow> string \<Rightarrow> error + pyval" where
  "py_getattr obj name =
     (case obj of
        VWrapper cls payload \<Rightarrow>
          (case normal_lookup cls payload name of
             Some v \<Rightarrow> Inr v
           | None \<Rightarrow> method_getattr obj (VStr name))
      | VObj fields \<Rightarrow> obj_getattr fields (VStr name)
      | _ \<Rightarrow> Inl (AttributeError (VStr name)))"

section \<open>Endpoint resolution and client factories\<close>

record request =
  session :: "(string \<times> pyval) list"

definition ebind :: "error + 'a \<Rightarrow> ('a \<Rightarrow> error + 'b) \<Rightarrow> error + 'b" where
  "ebind r f = (case r of Inl err \<Rightarrow> Inl err | Inr v \<Rightarrow> f v)"

definition url_for :: "request \<Rightarrow> string \<Rightarrow> bool \<Rightarrow> error + pyval" where
  "url_for request service_name admin =
     ebind (dict_getitem (session request) (VStr ''serviceCatalog'')) (\<lambda>catalog.
       if admin
       then ebind (py_getitem catalog (VStr service_name)) (\<lambda>endpoints.
            ebind (py_getitem endpoints (VInt 0)) (\<lambda>endpoint.
            py_getitem endpoint (VStr ''adminURL'')))
       else ebind (py_getitem catalog (VStr service_name)) (\<lambda>endpoints.
            ebind (py_getitem endpoints (VInt 0)) (\<lambda>endpoint.
            py_getitem endpoint (VStr ''internalURL''))))"

text \<open>
  A client of an external library is known by its constructor arguments. What the
  libraries and the interpreter provide is collected in an environment: the remote side,
  which answers a call given the calls made before it; \<^verbatim>\<open>urlparse\<close>, giving host name
  and port; the two settings; and the built-in \<^verbatim>\<open>str\<close>.
\<close>

datatype client =
    Compute pyval pyval
  | Account pyval pyval
  | Glance pyval pyval
  | Admin pyval pyval
  | Extras pyval pyval
  | Auth pyval
  | HTTPConnection pyval pyval

datatype call = Call client string "pyval list" "(string \<times> pyval) list"

record env =
  remote :: "call list \<Rightarrow> call \<Rightarrow> error + pyval"
  urlparse :: "pyval \<Rightarrow> error + pyval \<times> pyval"
  OPENSTACK_KEYSTONE_URL :: pyval
  OPENSTACK_ADMIN_TOKEN :: pyval
  py_str :: "pyval \<Rightarrow> string"

definition compute_api :: "request \<Rightarrow> error + client" where
  "compute_api request =
     ebind (dict_getitem (session request) (VStr ''token'')) (\<lambda>token.
     ebind (url_for request ''nova'' False) (\<lambda>url.
     Inr (Compute token url)))"

definition account_api :: "request \<Rightarrow> error + client" where
  "account_api request =
     ebind (dict_getitem (session request) (VStr ''token'')) (\<lambda>token.
     ebind (url_for request ''keystone'' True) (\<lambda>url.
     Inr (Account token url)))"

text \<open>The log line of \<^verbatim>\<open>glance_api\<close> formats the port with \<^verbatim>\<open>%d\<close>, which raises
  \<^verbatim>\<open>TypeError\<close> unless the port is a number.\<close>

definition is_number :: "pyval \<Rightarrow> bool" where
  "is_number v = (case v of VInt _ \<Rightarrow> True | VBool _ \<Rightarrow> True | _ \<Rightarrow> False)"

definition glance_api :: "env \<Rightarrow> request \<Rightarrow> error + client" where
  "glance_api e request =
     ebind (url_for request ''glance'' False) (\<lambda>url.
     ebind (urlparse e url) (\<lambda>(hostname, port).
     if is_number port then Inr (Glance hostname port) else Inl TypeError))"

definition admin_api :: "request \<Rightarrow> error + client" where
  "admin_api request =
     ebind (dict_getitem (session request) (VStr ''token'')) (\<lambda>token.
     ebind (url_for request ''nova'' True) (\<lambda>url.
     Inr (Admin token url)))"

definition extras_api :: "request \<Rightarrow> error + client" where
  "extras_api request =
     ebind (dict_getitem (session request) (VStr ''token'')) (\<lambda>token.
     ebind (url_for request ''nova'' False) (\<lambda>url.
     Inr (Extras token url)))"

definition auth_api :: "env \<Rightarrow> error + client" where
  "auth_api e = Inr (Auth (OPENSTACK_KEYSTONE_URL e))"

section \<open>Operation functions\<close>

text \<open>
  An operation runs against the list of the remote calls made so far and returns its
  result (or the exception raised) with the extended list. \<open>invoke\<close> is one remote call
  on a client; the client libraries return its answer or raise.
\<close>

type_synonym 'a io = "call list \<Rightarrow> (error + 'a) \<times> call list"

definition invoke ::
  "env \<Rightarrow> client \<Rightarrow> string \<Rightarrow> pyval list \<Rightarrow> (string \<times> pyval) list \<Rightarrow> pyval io" where
  "invoke e c m args kwargs log =
     (remote e log (Call c m args kwargs), log @ [Call c m args kwargs])"

text \<open>\<open>call_with api e m args kwargs post\<close>: build the client (which may raise), make the
  one remote call, and apply \<open>post\<close> to its answer.\<close>

definition call_with ::
  "error + client \<Rightarrow> env \<Rightarrow> string \<Rightarrow> pyval list \<Rightarrow> (string \<times> pyval) list \<Rightarrow>
     (pyval \<Rightarrow> error + pyval) \<Rightarrow> pyval io" where
  "call_with api e m args kwargs post log =
     (case api of
        Inl err \<Rightarrow> (Inl err, log)
      | Inr c \<Rightarrow>
          (case invoke e c m args kwargs log of
             (Inl err, log') \<Rightarrow> (Inl err, log')
           | (Inr r, log') \<Rightarrow> (post r, log')))"

text \<open>
  Iteration, as a \<^verbatim>\<open>for\<close> loop or a list comprehension does it: a list gives its
  elements, a dictionary its keys, a string its characters. A dictionary wrapper has
  \<^verbatim>\<open>__getitem__\<close> and no \<^verbatim>\<open>__iter__\<close>, so that Python asks it for item \<open>0\<close>, which is
  in no \<^verbatim>\<open>attrs\<close> and raises \<^verbatim>\<open>AttributeError(0)\<close>. Anything else is not iterable.
\<close>

definition py_iter :: "pyval \<Rightarrow> error + pyval list" where
  "py_iter v =
     (case v of
        VList xs \<Rightarrow> Inr xs
      | VDict kvs \<Rightarrow> Inr (map (\<lambda>kv. VStr (fst kv)) kvs)
      | VStr s \<Rightarrow> Inr (map (\<lambda>c. VStr [c]) s)
      | VWrapper cls payload \<Rightarrow>
          (if is_dict_wrapper cls then Inl (AttributeError (VInt 0)) else Inl TypeError)
      | _ \<Rightarrow> Inl TypeError)"

definition py_truthy :: "pyval \<Rightarrow> bool" where
  "py_truthy v =
     (case v of
        VNone \<Rightarrow> False
      | VBool b \<Rightarrow> b
      | VInt i \<Rightarrow> i \<noteq> 0
      | VStr s \<Rightarrow> s \<noteq> []
      | VList xs \<Rightarrow> xs \<noteq> []
      | VDict kvs \<Rightarrow> kvs \<noteq> []
      | _ \<Rightarrow> True)"

text \<open>\<open>wrap cls\<close> is \<^verbatim>\<open>cls(r)\<close>, \<open>wrap_each cls\<close> is \<^verbatim>\<open>[cls(x) for x in r]\<close>,
  \<open>unwrapped\<close> returns the answer as it is.\<close>

definition wrap :: "variant \<Rightarrow> pyval \<Rightarrow> error + pyval" where
  "wrap cls r = Inr (VWrapper cls r)"

definition wrap_each :: "variant \<Rightarrow> pyval \<Rightarrow> error + pyval" where
  "wrap_each cls r = ebind (py_iter r) (\<lambda>xs. Inr (VList (map (VWrapper cls) xs)))"

definition unwrapped :: "pyval \<Rightarrow> error + pyval" where
  "unwrapped r = Inr r"

definition console_create :: "env \<Rightarrow> request \<Rightarrow> pyval \<Rightarrow> pyval \<Rightarrow> pyval io" where
  "console_create e request instance_id kind =
     call_with (extras_api request) e ''consoles.create'' [instance_id, kind] [] (wrap Console)"

definition flavor_delete :: "env \<Rightarrow> request \<Rightarrow> pyval \<Rightarrow> pyval \<Rightarrow> pyval io" where
  "flavor_delete e request flavor_id purge =
     call_with (admin_api request) e ''flavors.delete'' [flavor_id, purge] [] unwrapped"

definition flavor_get :: "env \<Rightarrow> request \<Rightarrow> pyval \<Rightarrow> pyval io" where
  "flavor_get e request flavor_id =
     call_with (compute_api request) e ''flavors.get'' [flavor_id] [] (wrap Flavor)"

definition flavor_list :: "env \<Rightarrow> request \<Rightarrow> pyval io" where
  "flavor_list e request =
     call_with (extras_api request) e ''flavors.list'' [] [] (wrap_each Flavor)"

definition flavor_list_admin :: "env \<Rightarrow> request \<Rightarrow> pyval io" where
  "flavor_list_admin e request =
     call_with (extras_api request) e ''flavors.list'' [] [] (wrap_each Flavor)"

definition image_create :: "env \<Rightarrow> request \<Rightarrow> pyval \<Rightarrow> pyval \<Rightarrow> pyval io" where
  "image_create e request image_meta image_file =
     call_with (glance_api e request) e ''add_image'' [image_meta, image_file] [] (wrap Image)"

definition image_delete :: "env \<Rightarrow> request \<Rightarrow> pyval \<Rightarrow> pyval io" where
  "image_delete e request image_id =
     call_with (glance_api e request) e ''delete_image'' [image_id] [] unwrapped"

definition image_get :: "env \<Rightarrow> request \<Rightarrow> pyval \<Rightarrow> pyval io" where
  "image_get e request image_id =
     call_with (glance_api e request) e ''get_image'' [image_id] []
       (\<lambda>r. ebind (py_getitem r (VInt 0)) (wrap Image))"

definition image_list_detailed :: "env \<Rightarrow> request \<Rightarrow> pyval io" where
  "image_list_detailed e request =
     call_with (glance_api e request) e ''get_images_detailed'' [] [] (wrap_each Image)"

definition image_update :: "env \<Rightarrow> request \<Rightarrow> pyval \<Rightarrow> pyval \<Rightarrow> pyval io" where
  "image_update e request image_id image_meta =
     call_with (glance_api e request) e ''update_image'' [image_id]
       [(''image_meta'', if py_truthy image_meta then image_meta else VDict [])] (wrap Image)"

definition keypair_create :: "env \<Rightarrow> request \<Rightarrow> pyval \<Rightarrow> pyval io" where
  "keypair_create e request name =
     call_with (extras_api request) e ''keypairs.create'' [name] [] (wrap KeyPair)"

definition keypair_delete :: "env \<Rightarrow> request \<Rightarrow> pyval \<Rightarrow> pyval io" where
  "keypair_delete e request keypair_id =
     call_with (extras_api request) e ''keypairs.delete'' [keypair_id] [] unwrapped"

definition keypair_list :: "env \<Rightarrow> request \<Rightarrow> pyval io" where
  "keypair_list e request =
     call_with (extras_api request) e ''keypairs.list'' [] [] (wrap_each KeyPair)"

definition server_create ::
  "env \<Rightarrow> request \<Rightarrow> pyval \<Rightarrow> pyval \<Rightarrow> pyval \<Rightarrow> pyval \<Rightarrow> pyval \<Rightarrow> pyval io" where
  "server_create e request name image_ref flavor user_data key_name =
     call_with (extras_api request) e ''servers.create'' [name, image_ref, flavor]
       [(''user_data'', user_data), (''key_name'', key_name)] (wrap Server)"

definition server_delete :: "env \<Rightarrow> request \<Rightarrow> pyval \<Rightarrow> pyval io" where
  "server_delete e request instance =
     call_with (compute_api request) e ''servers.delete'' [instance] [] unwrapped"

definition server_get :: "env \<Rightarrow> request \<Rightarrow> pyval \<Rightarrow> pyval io" where
  "server_get e request instance_id =
     call_with (compute_api request) e ''servers.get'' [instance_id] [] (wrap Server)"

definition server_list :: "env \<Rightarrow> request \<Rightarrow> pyval io" where
  "server_list e request =
     call_with (extras_api request) e ''servers.list'' [] [] (wrap_each Server)"

definition service_get :: "env \<Rightarrow> request \<Rightarrow> pyval \<Rightarrow> pyval io" where
  "service_get e request name =
     call_with (admin_api request) e ''services.get'' [name] [] unwrapped"

definition service_list :: "env \<Rightarrow> request \<Rightarrow> pyval io" where
  "service_list e request =
     call_with (admin_api request) e ''services.list'' [] [] (wrap_each Services)"

definition service_update :: "env \<Rightarrow> request \<Rightarrow> pyval \<Rightarrow> pyval \<Rightarrow> pyval io" where
  "service_update e request name enabled =
     call_with (admin_api request) e ''services.update'' [name, enabled] [] unwrapped"

text \<open>
  \<^verbatim>\<open>token_get_tenant\<close> returns from inside its loop at the first tenant whose id has
  the string form of the requested id; when the loop ends it logs a warning and falls
  off the end of the function, which returns \<^verbatim>\<open>None\<close>.
\<close>

fun find_tenant :: "(pyval \<Rightarrow> string) \<Rightarrow> pyval list \<Rightarrow> pyval \<Rightarrow> error + pyval" where
  "find_tenant str_of [] tenant_id = Inr VNone"
| "find_tenant str_of (t # tenants) tenant_id =
     (case py_getattr t ''id'' of
        Inl err \<Rightarrow> Inl err
      | Inr tid \<Rightarrow>
          if str_of tid = str_of tenant_id then Inr (VWrapper Tenant t)
          else find_tenant str_of tenants tenant_id)"

definition token_get_tenant :: "env \<Rightarrow> request \<Rightarrow> pyval \<Rightarrow> pyval io" where
  "token_get_tenant e request tenant_id log =
     (case dict_getitem (session request) (VStr ''token'') of
        Inl err \<Rightarrow> (Inl err, log)
      | Inr token \<Rightarrow>
          call_with (auth_api e) e ''tenants.for_token'' [token] []
            (\<lambda>tenants. ebind (py_iter tenants) (\<lambda>ts. find_tenant (py_str e) ts tenant_id)) log)"

definition token_list_tenants :: "env \<Rightarrow> request \<Rightarrow> pyval \<Rightarrow> pyval io" where
  "token_list_tenants e request token =
     call_with (auth_api e) e ''tenants.for_token'' [token] [] (wrap_each Tenant)"

definition tenant_create :: "env \<Rightarrow> request \<Rightarrow> pyval \<Rightarrow> pyval \<Rightarrow> pyval \<Rightarrow> pyval io" where
  "tenant_create e request tenant_id description enabled =
     call_with (account_api request) e ''tenants.create'' [tenant_id, description, enabled] []
       (wrap Tenant)"

definition tenant_get :: "env \<Rightarrow> request \<Rightarrow> pyval \<Rightarrow> pyval io" where
  "tenant_get e request tenant_id =
     call_with (account_api request) e ''tenants.get'' [tenant_id] [] (wrap Tenant)"

definition tenant_list :: "env \<Rightarrow> request \<Rightarrow> pyval io" where
  "tenant_list e request =
     call_with (account_api request) e ''tenants.list'' [] [] (wrap_each Tenant)"

definition tenant_update :: "env \<Rightarrow> request \<Rightarrow> pyval \<Rightarrow> pyval \<Rightarrow> pyval \<Rightarrow> pyval io" where
  "tenant_update e request tenant_id description enabled =
     call_with (account_api request) e ''tenants.update'' [tenant_id, description, enabled] []
       (wrap Tenant)"

definition token_create :: "env \<Rightarrow> request \<Rightarrow> pyval \<Rightarrow> pyval \<Rightarrow> pyval \<Rightarrow> pyval io" where
  "token_create e request tenant username password =
     call_with (auth_api e) e ''tokens.create'' [tenant, username, password] [] (wrap Token)"

text \<open>
  \<^verbatim>\<open>token_info\<close>. The exchange on the connection (request, response, \<^verbatim>\<open>json.loads\<close>
  of the body) is one remote call \<open>GET\<close> whose answer is the decoded document.
  \<open>role_loop\<close> is the loop over the role references; \<open>token_info_result\<close> is the code
  from the assignment \<^verbatim>\<open>admin = False\<close> to the \<^verbatim>\<open>return\<close>.
\<close>

fun role_loop :: "pyval list \<Rightarrow> bool \<Rightarrow> error + bool" where
  "role_loop [] admin = Inr admin"
| "role_loop (role # roles) admin =
     (case py_getitem role (VStr ''roleId'') of
        Inl err \<Rightarrow> Inl err
      | Inr role_id \<Rightarrow> role_loop roles (if role_id = VStr ''Admin'' then True else admin))"

definition auth_user :: "pyval \<Rightarrow> error + pyval" where
  "auth_user data =
     ebind (py_getitem data (VStr ''auth'')) (\<lambda>auth. py_getitem auth (VStr ''user''))"

definition token_info_result :: "pyval \<Rightarrow> error + pyval" where
  "token_info_result data =
     ebind (auth_user data) (\<lambda>user.
     ebind (py_getitem user (VStr ''roleRefs'')) (\<lambda>role_refs.
     ebind (py_iter role_refs) (\<lambda>roles.
     ebind (role_loop roles False) (\<lambda>admin.
     ebind (auth_user data) (\<lambda>user1.
     ebind (py_getitem user1 (VStr ''tenantId'')) (\<lambda>tenant.
     ebind (auth_user data) (\<lambda>user2.
     ebind (py_getitem user2 (VStr ''username'')) (\<lambda>username.
     Inr (VDict [(''tenant'', tenant), (''user'', username), (''admin'', VBool admin)])))))))))"

definition keystone_admin_url :: "pyval \<Rightarrow> error + pyval" where
  "keystone_admin_url token =
     ebind (py_getattr token ''serviceCatalog'') (\<lambda>catalog.
     ebind (py_getitem catalog (VStr ''keystone'')) (\<lambda>endpoints.
     ebind (py_getitem endpoints (VInt 0)) (\<lambda>endpoint.
     py_getitem endpoint (VStr ''adminURL''))))"

definition hdrs :: "env \<Rightarrow> pyval" where
  "hdrs e = VDict [(''Content-type'', VStr ''application/json''),
                   (''X_AUTH_TOKEN'', OPENSTACK_ADMIN_TOKEN e),
                   (''Accept'', VStr ''text/json'')]"

definition token_info :: "env \<Rightarrow> request \<Rightarrow> pyval \<Rightarrow> pyval io" where
  "token_info e request token log =
     (case ebind (keystone_admin_url token) (urlparse e) of
        Inl err \<Rightarrow> (Inl err, log)
      | Inr (hostname, port) \<Rightarrow>
          (case py_getattr token ''id'' of
             Inl err \<Rightarrow> (Inl err, log)
           | Inr token_id \<Rightarrow>
               call_with (Inr (HTTPConnection hostname port)) e ''GET''
                 [VStr (''/v2.0/tokens/'' @ py_str e token_id)]
                 [(''headers'', hdrs e)]
                 token_info_result log))"

definition usage_get :: "env \<Rightarrow> request \<Rightarrow> pyval \<Rightarrow> pyval \<Rightarrow> pyval \<Rightarrow> pyval io" where
  "usage_get e request tenant_id start end_arg =
     call_with (extras_api request) e ''usage.get'' [tenant_id, start, end_arg] [] (wrap Usage)"

definition usage_list :: "env \<Rightarrow> request \<Rightarrow> pyval \<Rightarrow> pyval \<Rightarrow> pyval io" where
  "usage_list e request start end_arg =
     call_with (extras_api request) e ''usage.list'' [start, end_arg] [] (wrap_each Usage)"

definition user_create ::
  "env \<Rightarrow> request \<Rightarrow> pyval \<Rightarrow> pyval \<Rightarrow> pyval \<Rightarrow> pyval \<Rightarrow> pyval io" where
  "user_create e request user_id email password tenant_id =
     call_with (account_api request) e ''users.create'' [user_id, email, password, tenant_id] []
       (wrap User)"

definition user_delete :: "env \<Rightarrow> request \<Rightarrow> pyval \<Rightarrow> pyval io" where
  "user_delete e request user_id =
     call_with (account_api request) e ''users.delete'' [user_id] [] unwrapped"

definition user_get :: "env \<Rightarrow> request \<Rightarrow> pyval \<Rightarrow> pyval io" where
  "user_get e request user_id =
     call_with (account_api request) e ''users.get'' [user_id] [] (wrap User)"

definition user_list :: "env \<Rightarrow> request \<Rightarrow> pyval io" where
  "user_list e request =
     call_with (account_api request) e ''users.list'' [] [] (wrap_each User)"

definition user_update_email :: "env \<Rightarrow> request \<Rightarrow> pyval \<Rightarrow> pyval \<Rightarrow> pyval io" where
  "user_update_email e request user_id email =
     call_with (account_api request) e ''users.update_email'' [user_id, email] [] (wrap User)"

definition user_update_password :: "env \<Rightarrow> request \<Rightarrow> pyval \<Rightarrow> pyval \<Rightarrow> pyval io" where
  "user_update_password e request user_id password =
     call_with (account_api request) e ''users.update_password'' [user_id, password] []
       (wrap User)"

definition user_update_tenant :: "env \<Rightarrow> request \<Rightarrow> pyval \<Rightarrow> pyval \<Rightarrow> pyval io" where
  "user_update_tenant e request user_id tenant_id =
     call_with (account_api request) e ''users.update_tenant'' [user_id, tenant_id] []
       (wrap User)"

text \<open>A tenant matches a requested id when the string forms of the two ids are equal;
  this is the test of the loop in \<^verbatim>\<open>token_get_tenant\<close>, used below to state what the
  loop returns.\<close>

definition id_matches :: "(pyval \<Rightarrow> string) \<Rightarrow> pyval \<Rightarrow> pyval \<Rightarrow> bool" where
  "id_matches str_of tenant_id t =
     (case py_getattr t ''id'' of Inl err \<Rightarrow> False | Inr tid \<Rightarrow> str_of tid = str_of tenant_id)"

section \<open>A sample session and environment\<close>

text \<open>A concrete request, catalog and remote side, on which the functions above are
  evaluated below.\<close>

definition sample_services :: "(string \<times> pyval) list" where
  "sample_services =
     [(''nova'', VList [VDict [(''internalURL'', VStr ''nova-int''), (''adminURL'', VStr ''nova-adm'')],
                       VDict [(''internalURL'', VStr ''nova2-int''), (''adminURL'', VStr ''nova2-adm'')]]),
      (''keystone'', VList [VDict [(''internalURL'', VStr ''ks-int''), (''adminURL'', VStr ''ks-adm'')]]),
      (''glance'', VList [VDict [(''internalURL'', VStr ''gl-int''), (''adminURL'', VStr ''gl-adm'')]])]"

definition sample_catalog :: pyval where
  "sample_catalog = VDict sample_services"

definition sample_request :: request where
  "sample_request = \<lparr>session = [(''token'', VStr ''tok''), (''serviceCatalog'', sample_catalog)]\<rparr>"

definition sample_service :: pyval where
  "sample_service = VObj [(''id'', VInt 1), (''host'', VStr ''node1''), (''disabled'', VBool False)]"

definition sample_flavors :: "pyval list" where
  "sample_flavors = [VObj [(''id'', VInt 1), (''name'', VStr ''m1.tiny'')],
                     VObj [(''id'', VInt 2), (''name'', VStr ''m1.small'')]]"

definition sample_tenants :: "pyval list" where
  "sample_tenants = [VObj [(''id'', VStr ''1''), (''enabled'', VBool True)],
                     VObj [(''id'', VStr ''2''), (''enabled'', VBool False)],
                     VObj [(''id'', VStr ''2''), (''enabled'', VBool True)]]"

definition sample_roles :: "pyval list" where
  "sample_roles = [VDict [(''roleId'', VStr ''Member'')], VDict [(''roleId'', VStr ''Admin'')]]"

definition sample_user :: "(string \<times> pyval) list" where
  "sample_user = [(''roleRefs'', VList sample_roles), (''tenantId'', VStr ''t1''),
                  (''username'', VStr ''alice'')]"

definition sample_member :: "(string \<times> pyval) list" where
  "sample_member = [(''roleRefs'', VList [VDict [(''roleId'', VStr ''Member'')]]),
                    (''tenantId'', VStr ''t2''), (''username'', VStr ''bob'')]"

definition sample_token_detail :: "(string \<times> pyval) list \<Rightarrow> (string \<times> pyval) list" where
  "sample_token_detail user = [(''auth'', VDict [(''user'', VDict user)])]"

definition sample_token :: "string \<Rightarrow> pyval" where
  "sample_token token_id =
     VWrapper Token (VObj [(''id'', VStr token_id), (''serviceCatalog'', sample_catalog)])"

definition sample_extras :: client where
  "sample_extras = Extras (VStr ''tok'') (VStr ''nova-int'')"

definition sample_admin :: client where
  "sample_admin = Admin (VStr ''tok'') (VStr ''nova-adm'')"

definition sample_account :: client where
  "sample_account = Account (VStr ''tok'') (VStr ''ks-adm'')"

definition sample_glance :: client where
  "sample_glance = Glance (VStr ''gl-int'') (VInt 80)"

definition sample_auth :: client where
  "sample_auth = Auth (VStr ''ks-url'')"

definition sample_remote :: "call list \<Rightarrow> call \<Rightarrow> error + pyval" where
  "sample_remote log c =
     (case c of Call cl m args kwargs \<Rightarrow>
        if m = ''flavors.list'' then Inr (VList sample_flavors)
        else if m = ''services.get'' then Inr sample_service
        else if m = ''services.update'' then Inr sample_service
        else if m = ''services.list'' then Inr (VList [sample_service])
        else if m = ''tenants.for_token'' then Inr (VList sample_tenants)
        else if m = ''GET'' then
          (if args = [VStr ''/v2.0/tokens/tok'']
           then Inr (VDict (sample_token_detail sample_user))
           else Inr (VDict (sample_token_detail sample_member)))
        else Inr (VList []))"

definition sample_str :: "pyval \<Rightarrow> string" where
  "sample_str v = (case v of VStr s \<Rightarrow> s | _ \<Rightarrow> ''object'')"

definition sample_env :: env where
  "sample_env = \<lparr>remote = sample_remote,
                  urlparse = (\<lambda>url. Inr (url, VInt 80)),
                  OPENSTACK_KEYSTONE_URL = VStr ''ks-url'',
                  OPENSTACK_ADMIN_TOKEN = VStr ''admin-tok'',
                  py_str = sample_str\<rparr>"

section \<open>Basic facts about the primitives\<close>

lemma method_getattr_wrapper:
  "method_getattr (VWrapper cls payload) attr =
     wrapper_getattr cls (method_getattr payload) (py_getitem payload) attr"
  by (simp add: method_getattr_def[abs_def] py_getitem_def[abs_def])

lemma py_getitem_dict: "py_getitem (VDict kvs) key = dict_getitem kvs key"
  by (simp add: py_getitem_def)

lemma py_getitem_list: "py_getitem (VList xs) key = list_getitem xs key"
  by (simp add: py_getitem_def)

lemma method_getattr_obj: "method_getattr (VObj fs) attr = obj_getattr fs attr"
  by (simp add: method_getattr_def)

lemma dict_getitem_str:
  "dict_getitem kvs (VStr k) = (case map_of kvs k of Some v \<Rightarrow> Inr v | None \<Rightarrow> Inl (KeyError (VStr k)))"
  by (simp add: dict_getitem_def)

lemma list_getitem_first: "list_getitem (x # xs) (VInt 0) = Inr x"
  by (simp add: list_getitem_def index_of_def seq_index_def)

lemma wrapper_getattr_unknown:
  "attr \<notin> set (map VStr (attrs cls)) \<Longrightarrow> wrapper_getattr cls ga gi attr = Inl (AttributeError attr)"
  by (cases cls) (simp_all add: wrapper_getattr_def Image_getattr_def APIDictWrapper_getattr_def
      APIResourceWrapper_getattr_def)

lemma normal_lookup_None_iff:
  "normal_lookup cls payload name = None \<longleftrightarrow>
     name \<notin> set (instance_attr cls # class_attr_names cls)"
  by (simp add: normal_lookup_def class_attr_names_def object_attr_names_def)

lemma whitelist_not_reserved:
  "list_all (\<lambda>n. n \<notin> set (instance_attr cls # class_attr_names cls))
     (if cls = Server then remove1 ''attrs'' (attrs cls) else attrs cls)"
  by (cases cls)
     (simp_all add: instance_attr_def class_attr_names_def object_attr_names_def)

lemma whitelisted_not_normal:
  assumes "name \<in> set (attrs cls)" "\<not> (cls = Server \<and> name = ''attrs'')"
  shows "normal_lookup cls payload name = None"
proof -
  have "name \<in> set (if cls = Server then remove1 ''attrs'' (attrs cls) else attrs cls)"
    using assms by (cases "cls = Server") simp_all
  then show ?thesis
    using whitelist_not_reserved [of cls]
    unfolding list_all_iff normal_lookup_None_iff by blast
qed

lemma wrapper_ne: "VWrapper cls sub \<noteq> sub"
  by (induction sub) auto

lemma wrapper_getattr_known:
  assumes "attr \<in> set (map VStr (attrs cls))"
  shows "wrapper_getattr cls ga gi attr =
     (if cls = Image
      then (if attr = VStr ''properties''
            then (case gi attr of Inl e \<Rightarrow> Inl e | Inr v \<Rightarrow> Inr (VWrapper ImageProperties v))
            else gi attr)
      else if is_dict_wrapper cls then gi attr else ga attr)"
proof (cases "cls = Image")
  case True
  with assms have "attr \<in> set (map VStr (attrs Image))" by simp
  then show ?thesis using True
    by (auto simp add: wrapper_getattr_def Image_getattr_def APIDictWrapper_getattr_def
        simp del: set_map attrs.simps)
next
  case False
  then show ?thesis using assms
    by (simp add: wrapper_getattr_def APIDictWrapper_getattr_def APIResourceWrapper_getattr_def
        del: set_map attrs.simps)
qed

lemma sample_session:
  "map_of (session sample_request) ''serviceCatalog'' = Some sample_catalog"
  "map_of (session sample_request) ''token'' = Some (VStr ''tok'')"
  by (simp_all add: sample_request_def)

section \<open>Whitelisting\<close>

text \<open>
  C1, as the specification states it: for every wrapper variant and every field name not
  in its whitelist, accessing that name on the wrapper fails with \<^verbatim>\<open>AttributeError\<close>
  and never returns a value, in particular never the raw payload, also for names such
  as \<^verbatim>\<open>apiresource\<close>, \<^verbatim>\<open>apidict\<close>, \<^verbatim>\<open>attrs\<close> and \<^verbatim>\<open>get\<close>.
  This does not hold: \<^verbatim>\<open>apiresource\<close> is not in the whitelist of \<open>Console\<close>, and
  reading it on a \<open>Console\<close> wrapper gives the raw payload, because the constructor
  stores the payload under that name and Python finds it before \<^verbatim>\<open>__getattr__\<close>
  is asked.
\<close>

theorem apiresource_access_returns_payload:
  "''apiresource'' \<notin> set (attrs Console) \<and>
   py_getattr (VWrapper Console (VObj [(''id'', VInt 7)])) ''apiresource''
     = Inr (VObj [(''id'', VInt 7)])"
  by (simp add: py_getattr_def normal_lookup_def instance_attr_def)

text \<open>
  C1, amended: for every wrapper variant and every name not in its whitelist, the wrapper's
  \<^verbatim>\<open>__getattr__\<close> fails with \<^verbatim>\<open>AttributeError\<close> carrying the name; the attribute
  access \<^verbatim>\<open>wrapper.name\<close> fails in the same way for every such name that is neither the
  instance attribute holding the payload nor an attribute of the wrapper's class.
\<close>

theorem unknown_field_access_fails:
  "name \<notin> set (attrs cls) \<Longrightarrow>
     method_getattr (VWrapper cls payload) (VStr name) = Inl (AttributeError (VStr name)) \<and>
     (name \<noteq> instance_attr cls \<and> name \<notin> set (class_attr_names cls) \<longrightarrow>
        py_getattr (VWrapper cls payload) name = Inl (AttributeError (VStr name)))"
proof -
  assume a: "name \<notin> set (attrs cls)"
  then have "VStr name \<notin> set (map VStr (attrs cls))" by auto
  then have h: "method_getattr (VWrapper cls payload) (VStr name) = Inl (AttributeError (VStr name))"
    by (simp add: method_getattr_wrapper wrapper_getattr_unknown del: set_map)
  show ?thesis
  proof (intro conjI impI)
    show "method_getattr (VWrapper cls payload) (VStr name) = Inl (AttributeError (VStr name))"
      by (rule h)
  next
    assume "name \<noteq> instance_attr cls \<and> name \<notin> set (class_attr_names cls)"
    then have "normal_lookup cls payload name = None"
      by (simp add: normal_lookup_None_iff)
    then show "py_getattr (VWrapper cls payload) name = Inl (AttributeError (VStr name))"
      by (simp add: py_getattr_def h)
  qed
qed

theorem unknown_field_access_fails_witness:
  "''reboot'' \<notin> set (attrs Server) \<and>
   method_getattr (VWrapper Server (VObj [(''reboot'', VInt 1)])) (VStr ''reboot'')
     = Inl (AttributeError (VStr ''reboot'')) \<and>
   ''reboot'' \<noteq> instance_attr Server \<and> ''reboot'' \<notin> set (class_attr_names Server) \<and>
   py_getattr (VWrapper Server (VObj [(''reboot'', VInt 1)])) ''reboot''
     = Inl (AttributeError (VStr ''reboot''))"
proof -
  have a: "''reboot'' \<notin> set (attrs Server)" by simp
  have b: "''reboot'' \<noteq> instance_attr Server \<and> ''reboot'' \<notin> set (class_attr_names Server)"
    by (simp add: instance_attr_def class_attr_names_def object_attr_names_def)
  show ?thesis
    using a b unknown_field_access_fails [OF a, of "VObj [(''reboot'', VInt 1)]"] by blast
qed

text \<open>
  C2, as the specification states it: on every dictionary wrapper, \<^verbatim>\<open>get\<close> returns the
  payload's value for a key that is whitelisted and present, and the supplied default
  for a key that is absent or not whitelisted, and never raises.
  This does not hold: on an \<open>Image\<close>, \<^verbatim>\<open>get\<close> goes through \<^verbatim>\<open>Image.__getattr__\<close>, and
  for the key \<^verbatim>\<open>properties\<close> it returns the payload's value wrapped in
  \<open>ImageProperties\<close>, not the value itself.
\<close>

theorem image_get_properties_is_wrapped:
  "''properties'' \<in> set (attrs Image) \<and>
   map_of [(''properties'', VDict [(''kernel_id'', VInt 5)])] ''properties''
     = Some (VDict [(''kernel_id'', VInt 5)]) \<and>
   APIDictWrapper_get Image (VDict [(''properties'', VDict [(''kernel_id'', VInt 5)])])
     (VStr ''properties'') VNone
     \<noteq> Inr (VDict [(''kernel_id'', VInt 5)])"
  by (simp add: APIDictWrapper_get_def method_getattr_wrapper wrapper_getattr_def Image_getattr_def
        APIDictWrapper_getattr_def py_getitem_dict dict_getitem_str)

text \<open>
  C2, amended: on every dictionary wrapper whose payload is a dictionary, \<^verbatim>\<open>get\<close> returns
  the payload's value for a key that is whitelisted and present (for \<^verbatim>\<open>properties\<close> on
  an \<open>Image\<close>: that value wrapped in \<open>ImageProperties\<close>); for a key that is not
  whitelisted it returns exactly the supplied default, whatever the payload.
\<close>

theorem get_with_default:
  "is_dict_wrapper cls \<Longrightarrow>
     (k \<in> set (attrs cls) \<and> map_of kvs k = Some v \<longrightarrow>
        APIDictWrapper_get cls (VDict kvs) (VStr k) dflt =
          Inr (if cls = Image \<and> k = ''properties'' then VWrapper ImageProperties v else v)) \<and>
     (key \<notin> set (map VStr (attrs cls)) \<longrightarrow>
        APIDictWrapper_get cls apidict key dflt = Inr dflt)"
proof (intro conjI impI)
  assume d: "is_dict_wrapper cls" and a: "k \<in> set (attrs cls) \<and> map_of kvs k = Some v"
  then have w: "VStr k \<in> set (map VStr (attrs cls))" by auto
  have "method_getattr (VWrapper cls (VDict kvs)) (VStr k) =
          Inr (if cls = Image \<and> k = ''properties'' then VWrapper ImageProperties v else v)"
    using d a
    by (auto simp add: method_getattr_wrapper wrapper_getattr_known [OF w]
        py_getitem_dict[abs_def] dict_getitem_str)
  then show "APIDictWrapper_get cls (VDict kvs) (VStr k) dflt =
          Inr (if cls = Image \<and> k = ''properties'' then VWrapper ImageProperties v else v)"
    by (simp add: APIDictWrapper_get_def)
next
  assume "key \<notin> set (map VStr (attrs cls))"
  then have "method_getattr (VWrapper cls apidict) key = Inl (AttributeError key)"
    by (simp add: method_getattr_wrapper wrapper_getattr_unknown del: set_map)
  then show "APIDictWrapper_get cls apidict key dflt = Inr dflt"
    by (simp add: APIDictWrapper_get_def)
qed

theorem get_with_default_witness:
  "is_dict_wrapper ImageProperties \<and>
   ''kernel_id'' \<in> set (attrs ImageProperties) \<and>
   map_of [(''kernel_id'', VInt 5), (''secret'', VInt 1)] ''kernel_id'' = Some (VInt 5) \<and>
   APIDictWrapper_get ImageProperties (VDict [(''kernel_id'', VInt 5), (''secret'', VInt 1)])
     (VStr ''kernel_id'') (VStr ''dflt'') = Inr (VInt 5) \<and>
   VStr ''secret'' \<notin> set (map VStr (attrs ImageProperties)) \<and>
   APIDictWrapper_get ImageProperties (VDict [(''kernel_id'', VInt 5), (''secret'', VInt 1)])
     (VStr ''secret'') (VStr ''dflt'') = Inr (VStr ''dflt'')"
proof -
  have a: "is_dict_wrapper ImageProperties" by simp
  have b: "''kernel_id'' \<in> set (attrs ImageProperties) \<and>
           map_of [(''kernel_id'', VInt 5), (''secret'', VInt 1)] ''kernel_id'' = Some (VInt 5)"
    by simp
  have c: "VStr ''secret'' \<notin> set (map VStr (attrs ImageProperties))" by simp
  have d: "\<not> (ImageProperties = Image \<and> ''kernel_id'' = ''properties'')" by simp
  show ?thesis
    using a b c d
      get_with_default [OF a, of "''kernel_id''" "[(''kernel_id'', VInt 5), (''secret'', VInt 1)]"
        "VInt 5" "VStr ''dflt''" "VStr ''secret''"
        "VDict [(''kernel_id'', VInt 5), (''secret'', VInt 1)]"]
    by presburger
qed

text \<open>A whitelisted key that the payload lacks raises \<^verbatim>\<open>KeyError\<close>, which \<^verbatim>\<open>get\<close>
  does not catch.\<close>

lemma get_missing_key_raises:
  "''kernel_id'' \<in> set (attrs ImageProperties) \<and>
   APIDictWrapper_get ImageProperties (VDict []) (VStr ''kernel_id'') (VStr ''dflt'')
     = Inl (KeyError (VStr ''kernel_id''))"
  by (simp add: APIDictWrapper_get_def method_getattr_wrapper wrapper_getattr_def
        APIDictWrapper_getattr_def py_getitem_dict dict_getitem_str)

text \<open>
  C3, as the specification states it: for every wrapper variant, every payload that
  defines the whitelisted fields and every whitelisted field name, accessing the field on
  the wrapper returns exactly the payload's value.
  This does not hold: \<^verbatim>\<open>properties\<close> is in the whitelist of \<open>Image\<close>, and reading it
  gives an \<open>ImageProperties\<close> wrapper, not the payload's value, as
  \<^verbatim>\<open>Image.__getattr__\<close> is written to do.
\<close>

theorem image_properties_not_identity:
  "''properties'' \<in> set (attrs Image) \<and>
   map_of [(''properties'', VDict [(''kernel_id'', VInt 5)])] ''properties''
     = Some (VDict [(''kernel_id'', VInt 5)]) \<and>
   py_getattr (VWrapper Image (VDict [(''properties'', VDict [(''kernel_id'', VInt 5)])]))
     ''properties''
     \<noteq> Inr (VDict [(''kernel_id'', VInt 5)])"
  by (simp add: py_getattr_def normal_lookup_def instance_attr_def class_attr_names_def
      object_attr_names_def method_getattr_wrapper wrapper_getattr_def Image_getattr_def
      APIDictWrapper_getattr_def py_getitem_dict dict_getitem_str)

text \<open>
  C3, amended: for every wrapper variant and every whitelisted field name other than
  \<^verbatim>\<open>attrs\<close> on \<open>Server\<close>, accessing the field on a wrapper whose payload defines it
  returns exactly the payload's value, except that \<^verbatim>\<open>properties\<close> on an \<open>Image\<close>
  returns that value wrapped in \<open>ImageProperties\<close>. A resource wrapper's payload is a
  resource handle, a dictionary wrapper's payload a dictionary.
\<close>

theorem whitelisted_field_roundtrip:
  assumes "name \<in> set (attrs cls)" "\<not> (cls = Server \<and> name = ''attrs'')"
  shows "(\<not> is_dict_wrapper cls \<and> map_of fs name = Some v \<longrightarrow>
            py_getattr (VWrapper cls (VObj fs)) name = Inr v) \<and>
         (is_dict_wrapper cls \<and> map_of kvs name = Some v \<longrightarrow>
            py_getattr (VWrapper cls (VDict kvs)) name =
              Inr (if cls = Image \<and> name = ''properties'' then VWrapper ImageProperties v else v))"
proof -
  have n: "normal_lookup cls payload name = None" for payload
    using assms by (rule whitelisted_not_normal)
  have w: "VStr name \<in> set (map VStr (attrs cls))" using assms(1) by auto
  have r: "method_getattr (VWrapper cls (VObj fs)) (VStr name) = Inr v"
    if "\<not> is_dict_wrapper cls" "map_of fs name = Some v"
  proof -
    have "cls \<noteq> Image" using that(1) by auto
    then show ?thesis using that
      by (simp add: method_getattr_wrapper wrapper_getattr_known [OF w]
          method_getattr_obj[abs_def] obj_getattr_def)
  qed
  have d: "method_getattr (VWrapper cls (VDict kvs)) (VStr name) =
             Inr (if cls = Image \<and> name = ''properties'' then VWrapper ImageProperties v else v)"
    if "is_dict_wrapper cls" "map_of kvs name = Some v"
    using that
    by (auto simp add: method_getattr_wrapper wrapper_getattr_known [OF w]
        py_getitem_dict[abs_def] dict_getitem_str)
  show ?thesis using r d by (simp add: py_getattr_def n)
qed

theorem whitelisted_field_roundtrip_witness:
  "''name'' \<in> set (attrs Flavor) \<and> \<not> (Flavor = Server \<and> ''name'' = ''attrs'') \<and>
   \<not> is_dict_wrapper Flavor \<and>
   map_of [(''id'', VInt 1), (''name'', VStr ''m1.tiny'')] ''name'' = Some (VStr ''m1.tiny'') \<and>
   py_getattr (VWrapper Flavor (VObj [(''id'', VInt 1), (''name'', VStr ''m1.tiny'')])) ''name''
     = Inr (VStr ''m1.tiny'') \<and>
   ''size'' \<in> set (attrs Image) \<and> \<not> (Image = Server \<and> ''size'' = ''attrs'') \<and>
   is_dict_wrapper Image \<and>
   map_of [(''size'', VInt 512)] ''size'' = Some (VInt 512) \<and>
   py_getattr (VWrapper Image (VDict [(''size'', VInt 512)])) ''size'' = Inr (VInt 512)"
proof -
  have a1: "''name'' \<in> set (attrs Flavor)" and a2: "\<not> (Flavor = Server \<and> ''name'' = ''attrs'')"
    by simp_all
  have a3: "\<not> is_dict_wrapper Flavor \<and>
            map_of [(''id'', VInt 1), (''name'', VStr ''m1.tiny'')] ''name'' = Some (VStr ''m1.tiny'')"
    by simp
  have b1: "''size'' \<in> set (attrs Image)" and b2: "\<not> (Image = Server \<and> ''size'' = ''attrs'')"
    by simp_all
  have b3: "is_dict_wrapper Image \<and> map_of [(''size'', VInt 512)] ''size'' = Some (VInt 512)"
    by simp
  have b4: "\<not> (Image = Image \<and> ''size'' = ''properties'')" by simp
  show ?thesis
    using a1 a2 a3 b1 b2 b3 b4
      whitelisted_field_roundtrip [OF a1 a2,
        of "[(''id'', VInt 1), (''name'', VStr ''m1.tiny'')]" "VStr ''m1.tiny''" "[]"]
      whitelisted_field_roundtrip [OF b1 b2, of "[]" "VInt 512" "[(''size'', VInt 512)]"]
    by presburger
qed

text \<open>\<^verbatim>\<open>attrs\<close> is in the whitelist of \<open>Server\<close>, but it is also the name of the class
  attribute holding the whitelist, which ordinary lookup finds first: reading it gives
  the whitelist, whatever the payload defines.\<close>

lemma server_attrs_shadowed:
  "''attrs'' \<in> set (attrs Server) \<and>
   py_getattr (VWrapper Server (VObj [(''attrs'', VStr ''raw'')])) ''attrs''
     = Inr (VList (map VStr (attrs Server)))"
  by (simp add: py_getattr_def normal_lookup_def instance_attr_def)

text \<open>
  C8: for every raw image payload in which the key \<^verbatim>\<open>properties\<close> is present, accessing
  the field \<^verbatim>\<open>properties\<close> of the \<open>Image\<close> wrapper returns an \<open>ImageProperties\<close>
  wrapper around the raw sub-mapping, never the raw mapping itself, also when the
  sub-mapping is empty.
\<close>

theorem image_properties_wrapped:
  "map_of kvs ''properties'' = Some sub \<Longrightarrow>
     py_getattr (VWrapper Image (VDict kvs)) ''properties'' = Inr (VWrapper ImageProperties sub) \<and>
     VWrapper ImageProperties sub \<noteq> sub"
proof -
  assume a: "map_of kvs ''properties'' = Some sub"
  have n: "normal_lookup Image (VDict kvs) ''properties'' = None"
    by (rule whitelisted_not_normal) simp_all
  have "method_getattr (VWrapper Image (VDict kvs)) (VStr ''properties'')
          = Inr (VWrapper ImageProperties sub)"
    using a by (simp add: method_getattr_wrapper wrapper_getattr_def Image_getattr_def
        APIDictWrapper_getattr_def py_getitem_dict dict_getitem_str)
  then show ?thesis using n by (simp add: py_getattr_def wrapper_ne)
qed

theorem image_properties_wrapped_witness:
  "map_of [(''id'', VInt 3), (''properties'', VDict [])] ''properties'' = Some (VDict []) \<and>
   py_getattr (VWrapper Image (VDict [(''id'', VInt 3), (''properties'', VDict [])])) ''properties''
     = Inr (VWrapper ImageProperties (VDict [])) \<and>
   VWrapper ImageProperties (VDict []) \<noteq> VDict []"
proof -
  have a: "map_of [(''id'', VInt 3), (''properties'', VDict [])] ''properties'' = Some (VDict [])"
    by simp
  show ?thesis using a image_properties_wrapped [OF a] by blast
qed

section \<open>Endpoint resolution\<close>

text \<open>
  C4: when the session's catalog contains the requested service name with a non-empty
  endpoint list, \<^verbatim>\<open>url_for\<close> takes the first endpoint descriptor and returns its admin
  URL when the admin flag is true and its internal URL when it is false; when the service
  name is absent from the catalog it fails with a lookup error (\<^verbatim>\<open>KeyError\<close>).
\<close>

theorem url_for_first_endpoint:
  assumes "map_of (session request) ''serviceCatalog'' = Some (VDict catalog)"
  shows "(map_of catalog service_name = Some (VList (VDict endpoint # others)) \<and>
          map_of endpoint ''adminURL'' = Some admin_url \<longrightarrow>
            url_for request service_name True = Inr admin_url) \<and>
         (map_of catalog service_name = Some (VList (VDict endpoint # others)) \<and>
          map_of endpoint ''internalURL'' = Some internal_url \<longrightarrow>
            url_for request service_name False = Inr internal_url) \<and>
         (map_of catalog service_name = None \<longrightarrow>
            url_for request service_name admin = Inl (KeyError (VStr service_name)))"
  using assms
  by (simp add: url_for_def ebind_def dict_getitem_str py_getitem_dict py_getitem_list
      list_getitem_first)

lemma sample_nova:
  "map_of sample_services ''nova'' =
     Some (VList (VDict [(''internalURL'', VStr ''nova-int''), (''adminURL'', VStr ''nova-adm'')] #
                  [VDict [(''internalURL'', VStr ''nova2-int''), (''adminURL'', VStr ''nova2-adm'')]]))"
  by (simp add: sample_services_def)

theorem url_for_first_endpoint_witness:
  "map_of (session sample_request) ''serviceCatalog'' = Some (VDict sample_services) \<and>
   url_for sample_request ''nova'' True = Inr (VStr ''nova-adm'') \<and>
   url_for sample_request ''nova'' False = Inr (VStr ''nova-int'') \<and>
   map_of sample_services ''swift'' = None \<and>
   url_for sample_request ''swift'' False = Inl (KeyError (VStr ''swift''))"
proof -
  have a: "map_of (session sample_request) ''serviceCatalog'' = Some (VDict sample_services)"
    by (simp add: sample_request_def sample_catalog_def)
  have b: "map_of [(''internalURL'', VStr ''nova-int''), (''adminURL'', VStr ''nova-adm'')] ''adminURL''
             = Some (VStr ''nova-adm'')"
          "map_of [(''internalURL'', VStr ''nova-int''), (''adminURL'', VStr ''nova-adm'')] ''internalURL''
             = Some (VStr ''nova-int'')"
    by simp_all
  have c: "map_of sample_services ''swift'' = None"
    by (simp add: sample_services_def)
  show ?thesis
    using a b c sample_nova
      url_for_first_endpoint [OF a, of "''nova''"
        "[(''internalURL'', VStr ''nova-int''), (''adminURL'', VStr ''nova-adm'')]"
        "[VDict [(''internalURL'', VStr ''nova2-int''), (''adminURL'', VStr ''nova2-adm'')]]"
        "VStr ''nova-adm''" "VStr ''nova-int''" True]
      url_for_first_endpoint [OF a, of "''swift''" "[]" "[]" VNone VNone False]
    by presburger
qed

section \<open>Operation functions and their results\<close>

lemma sample_url_for:
  "url_for sample_request ''nova'' False = Inr (VStr ''nova-int'')"
  "url_for sample_request ''nova'' True = Inr (VStr ''nova-adm'')"
  "url_for sample_request ''keystone'' True = Inr (VStr ''ks-adm'')"
  "url_for sample_request ''glance'' False = Inr (VStr ''gl-int'')"
  by (simp_all add: url_for_def ebind_def dict_getitem_str sample_session sample_catalog_def
      sample_services_def py_getitem_dict py_getitem_list list_getitem_first)

lemma sample_clients:
  "extras_api sample_request = Inr sample_extras"
  "admin_api sample_request = Inr sample_admin"
  "account_api sample_request = Inr sample_account"
  "glance_api sample_env sample_request = Inr sample_glance"
  "auth_api sample_env = Inr sample_auth"
  "Auth (OPENSTACK_KEYSTONE_URL sample_env) = sample_auth"
  by (simp_all add: extras_api_def admin_api_def account_api_def glance_api_def
      auth_api_def ebind_def dict_getitem_str sample_session sample_url_for sample_env_def
      is_number_def sample_extras_def sample_admin_def sample_account_def sample_glance_def
      sample_auth_def)

lemma sample_remote_answers:
  "remote sample_env log (Call c ''flavors.list'' args kwargs) = Inr (VList sample_flavors)"
  "remote sample_env log (Call c ''services.get'' args kwargs) = Inr sample_service"
  "remote sample_env log (Call c ''services.update'' args kwargs) = Inr sample_service"
  "remote sample_env log (Call c ''services.list'' args kwargs) = Inr (VList [sample_service])"
  "remote sample_env log (Call c ''tenants.for_token'' args kwargs) = Inr (VList sample_tenants)"
  "remote sample_env log (Call c ''GET'' [VStr ''/v2.0/tokens/tok''] kwargs)
     = Inr (VDict (sample_token_detail sample_user))"
  "remote sample_env log (Call c ''GET'' [VStr ''/v2.0/tokens/tok2''] kwargs)
     = Inr (VDict (sample_token_detail sample_member))"
  "remote sample_env log (Call c ''get_images_detailed'' args kwargs) = Inr (VList [])"
  "remote sample_env log (Call c ''keypairs.list'' args kwargs) = Inr (VList [])"
  "remote sample_env log (Call c ''servers.list'' args kwargs) = Inr (VList [])"
  "remote sample_env log (Call c ''tenants.list'' args kwargs) = Inr (VList [])"
  "remote sample_env log (Call c ''usage.list'' args kwargs) = Inr (VList [])"
  "remote sample_env log (Call c ''users.list'' args kwargs) = Inr (VList [])"
  by (simp_all add: sample_env_def sample_remote_def)

text \<open>
  C6 says that every operation function other than a delete wraps the answer of its
  remote call, \<^verbatim>\<open>service_get\<close> and \<^verbatim>\<open>service_update\<close> included. On the sample
  environment these two return the raw service handle, while \<^verbatim>\<open>service_list\<close> wraps
  the same handle in \<open>Services\<close>.
\<close>

theorem service_get_returns_raw:
  "fst (service_get sample_env sample_request (VStr ''nova-compute'') []) = Inr sample_service \<and>
   fst (service_update sample_env sample_request (VStr ''nova-compute'') (VBool False) [])
     = Inr sample_service \<and>
   sample_service \<noteq> VWrapper Services sample_service \<and>
   fst (service_list sample_env sample_request []) = Inr (VList [VWrapper Services sample_service])"
  by (simp add: service_get_def service_update_def service_list_def call_with_def invoke_def
      sample_clients sample_remote_answers unwrapped_def wrap_each_def py_iter_def ebind_def
      wrapper_ne [symmetric])

lemma call_with_wrap_each:
  "api = Inr c \<Longrightarrow> remote e log (Call c m args kwargs) = Inr (VList xs) \<Longrightarrow>
     call_with api e m args kwargs (wrap_each cls) log =
       (Inr (VList (map (VWrapper cls) xs)), log @ [Call c m args kwargs])"
  by (simp add: call_with_def invoke_def wrap_each_def py_iter_def ebind_def)

text \<open>
  C7: every list-returning operation, when its remote call answers a sequence of \<open>N\<close> raw
  payloads, returns the list of the \<open>N\<close> payloads wrapped in the operation's variant, in
  the same order (the \<open>i\<close>-th result wraps the \<open>i\<close>-th payload), also for \<open>N = 0\<close>.
\<close>

theorem list_operations_wrap_in_order:
  "(extras_api request = Inr extras \<and>
    remote e log (Call extras ''flavors.list'' [] []) = Inr (VList flavors) \<longrightarrow>
      flavor_list e request log =
        (Inr (VList (map (VWrapper Flavor) flavors)), log @ [Call extras ''flavors.list'' [] []]) \<and>
      flavor_list_admin e request log =
        (Inr (VList (map (VWrapper Flavor) flavors)), log @ [Call extras ''flavors.list'' [] []])) \<and>
   (glance_api e request = Inr glance \<and>
    remote e log (Call glance ''get_images_detailed'' [] []) = Inr (VList images) \<longrightarrow>
      image_list_detailed e request log =
        (Inr (VList (map (VWrapper Image) images)), log @ [Call glance ''get_images_detailed'' [] []])) \<and>
   (extras_api request = Inr extras \<and>
    remote e log (Call extras ''keypairs.list'' [] []) = Inr (VList keypairs) \<longrightarrow>
      keypair_list e request log =
        (Inr (VList (map (VWrapper KeyPair) keypairs)), log @ [Call extras ''keypairs.list'' [] []])) \<and>
   (extras_api request = Inr extras \<and>
    remote e log (Call extras ''servers.list'' [] []) = Inr (VList servers) \<longrightarrow>
      server_list e request log =
        (Inr (VList (map (VWrapper Server) servers)), log @ [Call extras ''servers.list'' [] []])) \<and>
   (admin_api request = Inr admin \<and>
    remote e log (Call admin ''services.list'' [] []) = Inr (VList services) \<longrightarrow>
      service_list e request log =
        (Inr (VList (map (VWrapper Services) services)), log @ [Call admin ''services.list'' [] []])) \<and>
   (remote e log (Call (Auth (OPENSTACK_KEYSTONE_URL e)) ''tenants.for_token'' [token] [])
      = Inr (VList token_tenants) \<longrightarrow>
      token_list_tenants e request token log =
        (Inr (VList (map (VWrapper Tenant) token_tenants)),
         log @ [Call (Auth (OPENSTACK_KEYSTONE_URL e)) ''tenants.for_token'' [token] []])) \<and>
   (account_api request = Inr account \<and>
    remote e log (Call account ''tenants.list'' [] []) = Inr (VList tenants) \<longrightarrow>
      tenant_list e request log =
        (Inr (VList (map (VWrapper Tenant) tenants)), log @ [Call account ''tenants.list'' [] []])) \<and>
   (extras_api request = Inr extras \<and>
    remote e log (Call extras ''usage.list'' [start, end_arg] []) = Inr (VList usages) \<longrightarrow>
      usage_list e request start end_arg log =
        (Inr (VList (map (VWrapper Usage) usages)),
         log @ [Call extras ''usage.list'' [start, end_arg] []])) \<and>
   (account_api request = Inr account \<and>
    remote e log (Call account ''users.list'' [] []) = Inr (VList users) \<longrightarrow>
      user_list e request log =
        (Inr (VList (map (VWrapper User) users)), log @ [Call account ''users.list'' [] []]))"
  unfolding flavor_list_def flavor_list_admin_def image_list_detailed_def keypair_list_def
    server_list_def service_list_def token_list_tenants_def tenant_list_def usage_list_def
    user_list_def auth_api_def
  by (intro conjI impI; (elim conjE)?; rule call_with_wrap_each; assumption?; rule refl)


theorem list_operations_wrap_in_order_witness:
  "extras_api sample_request = Inr sample_extras \<and>
   glance_api sample_env sample_request = Inr sample_glance \<and>
   admin_api sample_request = Inr sample_admin \<and>
   account_api sample_request = Inr sample_account \<and>
   flavor_list sample_env sample_request [] =
     (Inr (VList (map (VWrapper Flavor) sample_flavors)), [Call sample_extras ''flavors.list'' [] []]) \<and>
   flavor_list_admin sample_env sample_request [] =
     (Inr (VList (map (VWrapper Flavor) sample_flavors)), [Call sample_extras ''flavors.list'' [] []]) \<and>
   image_list_detailed sample_env sample_request [] =
     (Inr (VList []), [Call sample_glance ''get_images_detailed'' [] []]) \<and>
   keypair_list sample_env sample_request [] =
     (Inr (VList []), [Call sample_extras ''keypairs.list'' [] []]) \<and>
   server_list sample_env sample_request [] =
     (Inr (VList []), [Call sample_extras ''servers.list'' [] []]) \<and>
   service_list sample_env sample_request [] =
     (Inr (VList [VWrapper Services sample_service]), [Call sample_admin ''services.list'' [] []]) \<and>
   token_list_tenants sample_env sample_request (VStr ''tok'') [] =
     (Inr (VList (map (VWrapper Tenant) sample_tenants)),
      [Call sample_auth ''tenants.for_token'' [VStr ''tok''] []]) \<and>
   tenant_list sample_env sample_request [] =
     (Inr (VList []), [Call sample_account ''tenants.list'' [] []]) \<and>
   usage_list sample_env sample_request (VStr ''2011-01'') (VStr ''2011-02'') [] =
     (Inr (VList []), [Call sample_extras ''usage.list'' [VStr ''2011-01'', VStr ''2011-02''] []]) \<and>
   user_list sample_env sample_request [] =
     (Inr (VList []), [Call sample_account ''users.list'' [] []])"
  using list_operations_wrap_in_order [where e = sample_env and request = sample_request
      and log = "[]" and extras = sample_extras and glance = sample_glance
      and admin = sample_admin and account = sample_account
      and flavors = sample_flavors and images = "[]" and keypairs = "[]" and servers = "[]"
      and services = "[sample_service]" and token = "VStr ''tok''"
      and token_tenants = sample_tenants and tenants = "[]"
      and start = "VStr ''2011-01''" and end_arg = "VStr ''2011-02''"
      and usages = "[]" and users = "[]"]
  by (simp add: sample_clients sample_remote_answers)

lemma find_tenant_no_match:
  "\<forall>t\<in>set ts. (\<exists>tid. py_getattr t ''id'' = Inr tid) \<and> \<not> id_matches str_of tenant_id t \<Longrightarrow>
     find_tenant str_of ts tenant_id = Inr VNone"
  by (induction ts) (auto simp: id_matches_def)

lemma find_tenant_first_match:
  "\<forall>t\<in>set before. (\<exists>tid. py_getattr t ''id'' = Inr tid) \<and> \<not> id_matches str_of tenant_id t \<Longrightarrow>
   id_matches str_of tenant_id t \<Longrightarrow>
     find_tenant str_of (before @ t # rest) tenant_id = Inr (VWrapper Tenant t)"
  by (induction before) (auto simp: id_matches_def split: sum.splits)

lemma token_get_tenant_unfold:
  assumes "map_of (session request) ''token'' = Some token"
      and "remote e log (Call (Auth (OPENSTACK_KEYSTONE_URL e)) ''tenants.for_token'' [token] [])
             = Inr (VList tenants)"
  shows "token_get_tenant e request tenant_id log =
           (find_tenant (py_str e) tenants tenant_id,
            log @ [Call (Auth (OPENSTACK_KEYSTONE_URL e)) ''tenants.for_token'' [token] []])"
  using assms
  by (simp add: token_get_tenant_def dict_getitem_str call_with_def auth_api_def invoke_def
      ebind_def py_iter_def)

text \<open>
  C9: for the tenant list returned for the session token (a list of tenants, each with an
  id), \<^verbatim>\<open>token_get_tenant\<close> returns \<^verbatim>\<open>None\<close>, raising nothing, when no tenant has
  an id whose string form equals that of the requested id; when some tenant matches, it
  returns the first matching tenant wrapped as a \<open>Tenant\<close>.
\<close>

theorem token_get_tenant_result:
  assumes "map_of (session request) ''token'' = Some token"
      and "remote e log (Call (Auth (OPENSTACK_KEYSTONE_URL e)) ''tenants.for_token'' [token] [])
             = Inr (VList tenants)"
      and "\<forall>t\<in>set tenants. \<exists>tid. py_getattr t ''id'' = Inr tid"
  shows "((\<forall>t\<in>set tenants. \<not> id_matches (py_str e) tenant_id t) \<longrightarrow>
            fst (token_get_tenant e request tenant_id log) = Inr VNone) \<and>
         (tenants = before @ t # rest \<and>
          (\<forall>b\<in>set before. \<not> id_matches (py_str e) tenant_id b) \<and>
          id_matches (py_str e) tenant_id t \<longrightarrow>
            fst (token_get_tenant e request tenant_id log) = Inr (VWrapper Tenant t))"
proof (intro conjI impI)
  assume "\<forall>t\<in>set tenants. \<not> id_matches (py_str e) tenant_id t"
  with assms(3) have "find_tenant (py_str e) tenants tenant_id = Inr VNone"
    by (intro find_tenant_no_match) blast
  then show "fst (token_get_tenant e request tenant_id log) = Inr VNone"
    by (simp add: token_get_tenant_unfold [OF assms(1,2)])
next
  assume h: "tenants = before @ t # rest \<and>
          (\<forall>b\<in>set before. \<not> id_matches (py_str e) tenant_id b) \<and>
          id_matches (py_str e) tenant_id t"
  with assms(3) have "\<forall>b\<in>set before. (\<exists>tid. py_getattr b ''id'' = Inr tid) \<and>
                        \<not> id_matches (py_str e) tenant_id b"
    by auto
  then have "find_tenant (py_str e) (before @ t # rest) tenant_id = Inr (VWrapper Tenant t)"
    using h by (intro find_tenant_first_match) blast+
  then show "fst (token_get_tenant e request tenant_id log) = Inr (VWrapper Tenant t)"
    using h by (simp add: token_get_tenant_unfold [OF assms(1,2)])
qed

theorem token_get_tenant_result_witness:
  "map_of (session sample_request) ''token'' = Some (VStr ''tok'') \<and>
   remote sample_env [] (Call (Auth (OPENSTACK_KEYSTONE_URL sample_env)) ''tenants.for_token''
     [VStr ''tok''] []) = Inr (VList sample_tenants) \<and>
   fst (token_get_tenant sample_env sample_request (VStr ''9'') []) = Inr VNone \<and>
   fst (token_get_tenant sample_env sample_request (VStr ''2'') [])
     = Inr (VWrapper Tenant (VObj [(''id'', VStr ''2''), (''enabled'', VBool False)]))"
proof -
  have a: "map_of (session sample_request) ''token'' = Some (VStr ''tok'')"
    by (rule sample_session)
  have b: "remote sample_env [] (Call (Auth (OPENSTACK_KEYSTONE_URL sample_env)) ''tenants.for_token''
     [VStr ''tok''] []) = Inr (VList sample_tenants)"
    by (rule sample_remote_answers)
  have c: "\<forall>t\<in>set sample_tenants. \<exists>tid. py_getattr t ''id'' = Inr tid"
    by (simp add: sample_tenants_def py_getattr_def obj_getattr_def)
  have d: "\<forall>t\<in>set sample_tenants. \<not> id_matches (py_str sample_env) (VStr ''9'') t"
    by (simp add: sample_tenants_def py_getattr_def obj_getattr_def id_matches_def sample_env_def
        sample_str_def)
  have e: "sample_tenants = [VObj [(''id'', VStr ''1''), (''enabled'', VBool True)]] @
             VObj [(''id'', VStr ''2''), (''enabled'', VBool False)] #
             [VObj [(''id'', VStr ''2''), (''enabled'', VBool True)]] \<and>
           (\<forall>b\<in>set [VObj [(''id'', VStr ''1''), (''enabled'', VBool True)]].
              \<not> id_matches (py_str sample_env) (VStr ''2'') b) \<and>
           id_matches (py_str sample_env) (VStr ''2'')
             (VObj [(''id'', VStr ''2''), (''enabled'', VBool False)])"
    by (simp add: sample_tenants_def py_getattr_def obj_getattr_def id_matches_def sample_env_def
        sample_str_def)
  show ?thesis
    using a b c d e
      token_get_tenant_result [OF a b c, of "VStr ''9''" "[]" VNone "[]"]
      token_get_tenant_result [OF a b c, of "VStr ''2''"
        "[VObj [(''id'', VStr ''1''), (''enabled'', VBool True)]]"
        "VObj [(''id'', VStr ''2''), (''enabled'', VBool False)]"
        "[VObj [(''id'', VStr ''2''), (''enabled'', VBool True)]]"]
    by blast
qed

section \<open>Token details\<close>

lemma role_loop_result:
  "\<forall>r\<in>set roles. \<exists>kvs rid. r = VDict kvs \<and> map_of kvs ''roleId'' = Some rid \<Longrightarrow>
   role_loop roles admin =
     Inr (admin \<or> (\<exists>r\<in>set roles. py_getitem r (VStr ''roleId'') = Inr (VStr ''Admin'')))"
proof (induction roles arbitrary: admin)
  case Nil
  then show ?case by simp
next
  case (Cons r roles)
  then obtain kvs rid where r: "r = VDict kvs" "map_of kvs ''roleId'' = Some rid"
    by auto
  have "role_loop (r # roles) admin = role_loop roles (if rid = VStr ''Admin'' then True else admin)"
    using r by (simp add: py_getitem_dict dict_getitem_str)
  also have "\<dots> = Inr ((if rid = VStr ''Admin'' then True else admin) \<or>
      (\<exists>r\<in>set roles. py_getitem r (VStr ''roleId'') = Inr (VStr ''Admin'')))"
    using Cons by simp
  finally show ?case using r by (auto simp: py_getitem_dict dict_getitem_str)
qed

lemma token_info_result_well_formed:
  assumes "map_of data ''auth'' = Some (VDict auth_d)"
      and "map_of auth_d ''user'' = Some (VDict user_d)"
      and "map_of user_d ''roleRefs'' = Some (VList roles)"
      and "\<forall>r\<in>set roles. \<exists>kvs rid. r = VDict kvs \<and> map_of kvs ''roleId'' = Some rid"
      and "map_of user_d ''tenantId'' = Some tenant"
      and "map_of user_d ''username'' = Some username"
  shows "token_info_result (VDict data) =
           Inr (VDict [(''tenant'', tenant), (''user'', username),
                       (''admin'', VBool (\<exists>r\<in>set roles.
                          py_getitem r (VStr ''roleId'') = Inr (VStr ''Admin'')))])"
proof -
  have u: "auth_user (VDict data) = Inr (VDict user_d)"
    using assms(1,2) by (simp add: auth_user_def ebind_def py_getitem_dict dict_getitem_str)
  have l: "role_loop roles False =
     Inr (\<exists>r\<in>set roles. py_getitem r (VStr ''roleId'') = Inr (VStr ''Admin''))"
    using role_loop_result [OF assms(4), of False] by simp
  show ?thesis
    using assms(3,5,6)
    by (simp add: token_info_result_def u l ebind_def py_getitem_dict dict_getitem_str py_iter_def)
qed

text \<open>
  C5: for every well-formed token detail response (a document whose \<^verbatim>\<open>auth.user\<close> has a
  tenant id, a user name and a list of role references, each with a role id),
  \<^verbatim>\<open>token_info\<close> returns the response's tenant id and user name, and an admin flag that
  is true if and only if some role reference of the user is literally \<^verbatim>\<open>Admin\<close>.
\<close>

theorem token_info_extracts:
  assumes "keystone_admin_url token = Inr url"
      and "urlparse e url = Inr (hostname, port)"
      and "py_getattr token ''id'' = Inr token_id"
      and "remote e log (Call (HTTPConnection hostname port) ''GET''
             [VStr (''/v2.0/tokens/'' @ py_str e token_id)] [(''headers'', hdrs e)]) = Inr (VDict data)"
      and "map_of data ''auth'' = Some (VDict auth_d)"
      and "map_of auth_d ''user'' = Some (VDict user_d)"
      and "map_of user_d ''roleRefs'' = Some (VList roles)"
      and "\<forall>r\<in>set roles. \<exists>kvs rid. r = VDict kvs \<and> map_of kvs ''roleId'' = Some rid"
      and "map_of user_d ''tenantId'' = Some tenant"
      and "map_of user_d ''username'' = Some username"
  shows "fst (token_info e request token log) =
           Inr (VDict [(''tenant'', tenant), (''user'', username),
                       (''admin'', VBool (\<exists>r\<in>set roles.
                          py_getitem r (VStr ''roleId'') = Inr (VStr ''Admin'')))])"
proof -
  have "fst (token_info e request token log) = token_info_result (VDict data)"
    using assms(1-4) by (simp add: token_info_def ebind_def call_with_def invoke_def)
  then show ?thesis
    using token_info_result_well_formed [OF assms(5-10)] by simp
qed


lemma sample_token_facts:
  "keystone_admin_url (sample_token token_id) = Inr (VStr ''ks-adm'')"
  "py_getattr (sample_token token_id) ''id'' = Inr (VStr token_id)"
proof -
  have n: "normal_lookup Token payload ''serviceCatalog'' = None"
          "normal_lookup Token payload ''id'' = None" for payload
    by (rule whitelisted_not_normal; simp)+
  show "keystone_admin_url (sample_token token_id) = Inr (VStr ''ks-adm'')"
    by (simp add: keystone_admin_url_def sample_token_def py_getattr_def n method_getattr_wrapper
        wrapper_getattr_def APIResourceWrapper_getattr_def method_getattr_obj obj_getattr_def
        ebind_def sample_catalog_def sample_services_def py_getitem_dict py_getitem_list
        dict_getitem_str list_getitem_first)
  show "py_getattr (sample_token token_id) ''id'' = Inr (VStr token_id)"
    by (simp add: sample_token_def py_getattr_def n method_getattr_wrapper
        wrapper_getattr_def APIResourceWrapper_getattr_def method_getattr_obj obj_getattr_def)
qed

theorem token_info_extracts_witness:
  "fst (token_info sample_env sample_request (sample_token ''tok'') []) =
     Inr (VDict [(''tenant'', VStr ''t1''), (''user'', VStr ''alice''), (''admin'', VBool True)]) \<and>
   fst (token_info sample_env sample_request (sample_token ''tok2'') []) =
     Inr (VDict [(''tenant'', VStr ''t2''), (''user'', VStr ''bob''), (''admin'', VBool False)])"
proof -
  have p: "urlparse sample_env (VStr ''ks-adm'') = Inr (VStr ''ks-adm'', VInt 80)"
    by (simp add: sample_env_def)
  have s: "py_str sample_env (VStr token_id) = token_id" for token_id
    by (simp add: sample_env_def sample_str_def)
  have r1: "remote sample_env [] (Call (HTTPConnection (VStr ''ks-adm'') (VInt 80)) ''GET''
             [VStr (''/v2.0/tokens/'' @ py_str sample_env (VStr ''tok''))]
             [(''headers'', hdrs sample_env)]) = Inr (VDict (sample_token_detail sample_user))"
    by (simp add: s sample_remote_answers)
  have r2: "remote sample_env [] (Call (HTTPConnection (VStr ''ks-adm'') (VInt 80)) ''GET''
             [VStr (''/v2.0/tokens/'' @ py_str sample_env (VStr ''tok2''))]
             [(''headers'', hdrs sample_env)]) = Inr (VDict (sample_token_detail sample_member))"
    by (simp add: s sample_remote_answers)
  have d: "map_of (sample_token_detail user) ''auth'' = Some (VDict [(''user'', VDict user)])"
          "map_of [(''user'', VDict user)] ''user'' = Some (VDict user)" for user
    by (simp_all add: sample_token_detail_def)
  have u1: "map_of sample_user ''roleRefs'' = Some (VList sample_roles)"
           "map_of sample_user ''tenantId'' = Some (VStr ''t1'')"
           "map_of sample_user ''username'' = Some (VStr ''alice'')"
    by (simp_all add: sample_user_def)
  have u2: "map_of sample_member ''roleRefs'' = Some (VList [VDict [(''roleId'', VStr ''Member'')]])"
           "map_of sample_member ''tenantId'' = Some (VStr ''t2'')"
           "map_of sample_member ''username'' = Some (VStr ''bob'')"
    by (simp_all add: sample_member_def)
  have w1: "\<forall>r\<in>set sample_roles. \<exists>kvs rid. r = VDict kvs \<and> map_of kvs ''roleId'' = Some rid"
    by (simp add: sample_roles_def)
  have w2: "\<forall>r\<in>set [VDict [(''roleId'', VStr ''Member'')]].
              \<exists>kvs rid. r = VDict kvs \<and> map_of kvs ''roleId'' = Some rid"
    by simp
  have a1: "(\<exists>r\<in>set sample_roles. py_getitem r (VStr ''roleId'') = Inr (VStr ''Admin'')) = True"
    by (simp add: sample_roles_def py_getitem_dict dict_getitem_str)
  have a2: "(\<exists>r\<in>set [VDict [(''roleId'', VStr ''Member'')]].
               py_getitem r (VStr ''roleId'') = Inr (VStr ''Admin'')) = False"
    by (simp add: py_getitem_dict dict_getitem_str)
  show ?thesis
    using token_info_extracts [OF sample_token_facts(1) p sample_token_facts(2) r1 d u1(1) w1 u1(2,3),
            of sample_request]
          token_info_extracts [OF sample_token_facts(1) p sample_token_facts(2) r2 d u2(1) w2 u2(2,3),
            of sample_request]
    unfolding a1 a2 by simp
qed

section \<open>The two flavor listings\<close>

text \<open>
  C10: \<^verbatim>\<open>flavor_list\<close> and \<^verbatim>\<open>flavor_list_admin\<close> are extensionally equal: for every
  environment, request and history they return the same result and make the same remote
  call, the flavor list of the extras client.
\<close>

theorem flavor_list_admin_same:
  "flavor_list_admin e request log = flavor_list e request log \<and>
   snd (flavor_list e request log) =
     (case extras_api request of Inl err \<Rightarrow> log | Inr c \<Rightarrow> log @ [Call c ''flavors.list'' [] []])"
  by (simp add: flavor_list_admin_def flavor_list_def call_with_def invoke_def
      split: sum.splits prod.splits)

end
